theory Spec2Isabelle
  imports Complex_Main "HOL-Library.Multiset"
begin

section \<open>Paths\<close>

text \<open>
  The processor builds output names with \<^verbatim>\<open>pathlib.Path\<close>. The model follows the POSIX
  flavour of CPython 3.8 to 3.13 (the versions \<^verbatim>\<open>setup.py\<close> declares): a path is its
  root (\<^verbatim>\<open>''\<close>, \<^verbatim>\<open>'/'\<close> or \<^verbatim>\<open>'//'\<close>) and the list of its components, from which the
  empty ones and \<^verbatim>\<open>'.'\<close> are dropped. Strings are lists of bytes.
\<close>

record pure_path =
  root :: string
  parts :: "string list"

text \<open>\<^verbatim>\<open>rel.split('/')\<close>: the pieces between the separators, never an empty list.\<close>

fun split_sep :: "string \<Rightarrow> string list" where
  "split_sep [] = [Nil]"
| "split_sep (c # cs) =
     (if c = CHR ''/'' then [] # split_sep cs
      else (case split_sep cs of [] \<Rightarrow> [c # Nil] | p # ps \<Rightarrow> (c # p) # ps))"

text \<open>
  \<^verbatim>\<open>splitroot\<close>: exactly two leading slashes are kept as the root \<^verbatim>\<open>'//'\<close>, any other
  number of them is the root \<^verbatim>\<open>'/'\<close>.
\<close>

definition splitroot :: "string \<Rightarrow> string \<times> string" where
  "splitroot part =
     (if part \<noteq> [] \<and> hd part = CHR ''/'' then
        (let stripped_part = dropWhile (\<lambda>c. c = CHR ''/'') part in
         if length part - length stripped_part = 2 then (''//'', stripped_part)
         else (''/'', stripped_part))
      else ('''', part))"

definition Path :: "string \<Rightarrow> pure_path" where
  "Path s = (case splitroot s of (r, rel) \<Rightarrow>
     \<lparr>root = r, parts = filter (\<lambda>x. x \<noteq> [] \<and> x \<noteq> ''.'') (split_sep rel)\<rparr>)"

text \<open>\<^verbatim>\<open>'/'.join(parts)\<close>\<close>

fun join_sep :: "string list \<Rightarrow> string" where
  "join_sep [] = []"
| "join_sep [p] = p"
| "join_sep (p # q # ps) = p @ ''/'' @ join_sep (q # ps)"

text \<open>\<^verbatim>\<open>str(path)\<close>: the root and the joined components, or \<^verbatim>\<open>'.'\<close> when both are empty.\<close>

definition path_str :: "pure_path \<Rightarrow> string" where
  "path_str p = (let s = root p @ join_sep (parts p) in if s = [] then ''.'' else s)"

text \<open>\<^verbatim>\<open>path.name\<close>: the last component, \<^verbatim>\<open>''\<close> when there is none.\<close>

definition name :: "pure_path \<Rightarrow> string" where
  "name p = (if parts p = [] then [] else last (parts p))"

text \<open>\<^verbatim>\<open>s.rfind(c)\<close>: the index of the last occurrence of \<open>c\<close>, or \<open>-1\<close>.\<close>

fun rfind :: "char \<Rightarrow> string \<Rightarrow> int" where
  "rfind c [] = - 1"
| "rfind c (x # xs) =
     (let r = rfind c xs in if 0 \<le> r then r + 1 else if x = c then 0 else - 1)"

text \<open>
  \<^verbatim>\<open>path.stem\<close> and \<^verbatim>\<open>path.suffix\<close>: the name is cut at its last dot, unless that dot is
  the first or the last character of the name.
\<close>

definition stem :: "pure_path \<Rightarrow> string" where
  "stem p = (let n = name p; i = rfind CHR ''.'' n in
     if 0 < i \<and> i < int (length n) - 1 then take (nat i) n else n)"

definition suffix :: "pure_path \<Rightarrow> string" where
  "suffix p = (let n = name p; i = rfind CHR ''.'' n in
     if 0 < i \<and> i < int (length n) - 1 then drop (nat i) n else [])"

text \<open>
  \<^verbatim>\<open>path / key\<close>: the key is parsed as a path of its own; a key with a root replaces the
  left operand, any other key appends its components.
\<close>

definition truediv :: "pure_path \<Rightarrow> string \<Rightarrow> pure_path" where
  "truediv p key = (let k = Path key in
     if root k \<noteq> [] then k else \<lparr>root = root p, parts = parts p @ parts k\<rparr>)"

subsection \<open>\<^verbatim>\<open>ParallelProcessor._get_output_path\<close>\<close>

definition get_output_path :: "string \<Rightarrow> string \<Rightarrow> string" where
  "get_output_path input_path output_dir =
     (let input_file = Path input_path;
          output_file = truediv (Path output_dir) (stem input_file @ ''.pdf'')
      in path_str output_file)"

text \<open>
  The claim's own words, for comparison with the code: the output directory, as
  \<^verbatim>\<open>pathlib\<close> prints it, joined by one separator with the stem and \<^verbatim>\<open>'.pdf'\<close>. The
  directory \<^verbatim>\<open>'.'\<close> contributes nothing, and a directory that is only a root already ends
  with its separator.
\<close>

definition joined_output :: "string \<Rightarrow> string \<Rightarrow> string" where
  "joined_output dir_text file_name =
     (if dir_text = ''.'' then file_name
      else if last dir_text = CHR ''/'' then dir_text @ file_name
      else dir_text @ ''/'' @ file_name)"

text \<open>\<^verbatim>\<open>path.parent\<close>: the path without its last component; a path without components is
  its own parent.\<close>

definition parent :: "pure_path \<Rightarrow> pure_path" where
  "parent p = (if parts p = [] then p else p\<lparr>parts := butlast (parts p)\<rparr>)"

section \<open>Strings and exceptions\<close>

text \<open>\<^verbatim>\<open>str.lower\<close> on the ASCII letters, which is all the suffix tests below depend on.\<close>

definition lower_char :: "char \<Rightarrow> char" where
  "lower_char c = (let n = (of_char c :: nat) in if 65 \<le> n \<and> n \<le> 90 then char_of (n + 32) else c)"

definition lower :: "string \<Rightarrow> string" where
  "lower s = map lower_char s"

definition endswith :: "string \<Rightarrow> string \<Rightarrow> bool" where
  "endswith s suf = (length suf \<le> length s \<and> drop (length s - length suf) s = suf)"

text \<open>The accented letters of the messages, as their UTF-8 bytes.\<close>

definition a_acute :: string where
  "a_acute = [CHR 0xC3, CHR 0xA1]"

definition o_acute :: string where
  "o_acute = [CHR 0xC3, CHR 0xB3]"

text \<open>\<^verbatim>\<open>str(n)\<close> for a length.\<close>

fun str_nat :: "nat \<Rightarrow> string" where
  "str_nat n = (if n < 10 then [char_of (48 + n)]
                else str_nat (n div 10) @ [char_of (48 + n mod 10)])"

text \<open>An \<^verbatim>\<open>Optional[str]\<close> inside an f-string.\<close>

definition fmt_opt :: "string option \<Rightarrow> string" where
  "fmt_opt m = (case m of None \<Rightarrow> ''None'' | Some t \<Rightarrow> t)"

text \<open>
  Exceptions (\<^verbatim>\<open>utils/exceptions.py\<close>). \<^verbatim>\<open>ConversionError\<close> carries a message, a file path
  and details; \<^verbatim>\<open>PDFGenerationError\<close> is its subclass whose details are
  \<^verbatim>\<open>f"Error PDF: {pdf_error}"\<close>. Any other exception is kept with its text as message.
\<close>

datatype exn_class = ConversionError | PDFGenerationError | OtherException

record exn =
  cls :: exn_class
  message :: string
  file_path :: "string option"
  details :: "string option"

text \<open>\<^verbatim>\<open>ConversionError.__str__\<close>: an empty or absent path or detail is left out.\<close>

definition str_exn :: "exn \<Rightarrow> string" where
  "str_exn e =
     message e
     @ (case file_path e of None \<Rightarrow> [] | Some fp \<Rightarrow> if fp = [] then [] else '' (Archivo: '' @ fp @ '')'')
     @ (case details e of None \<Rightarrow> [] | Some d \<Rightarrow> if d = [] then [] else '' - '' @ d)"

definition conversion_error :: "string \<Rightarrow> string option \<Rightarrow> exn" where
  "conversion_error m fp = \<lparr>cls = ConversionError, message = m, file_path = fp, details = None\<rparr>"

text \<open>The code never passes \<^verbatim>\<open>pdf_error\<close>, so the details are always \<^verbatim>\<open>'Error PDF: None'\<close>.\<close>

definition pdf_generation_error :: "string \<Rightarrow> string option \<Rightarrow> exn" where
  "pdf_generation_error m fp =
     \<lparr>cls = PDFGenerationError, message = m, file_path = fp, details = Some ''Error PDF: None''\<rparr>"

definition other_exception :: "string \<Rightarrow> exn" where
  "other_exception m = \<lparr>cls = OtherException, message = m, file_path = None, details = None\<rparr>"

section \<open>Configuration and environment\<close>

text \<open>The fields of \<^verbatim>\<open>config.settings.Config\<close> that the modelled code reads.\<close>

record config =
  max_file_size :: int
  supported_extensions :: "string list"
  config_max_workers :: int

definition default_config :: config where
  "default_config = \<lparr>max_file_size = 104857600, supported_extensions = [''.doc'', ''.docx''],
     config_max_workers = 4\<rparr>"

definition is_supported_extension :: "config \<Rightarrow> string \<Rightarrow> bool" where
  "is_supported_extension c extension = (lower extension \<in> set (map lower (supported_extensions c)))"

text \<open>
  Everything outside the repository is a fixed environment: the file system, the
  magic-number library, \<^verbatim>\<open>antiword\<close>, the document and PDF libraries, the executor and
  the machine. Each call into it is a function of its arguments; \<open>Inl\<close> (or \<open>Some\<close> for a
  call without a result) is an exception it raises. \<open>'d\<close> is the type of loaded documents,
  \<open>'c\<close> the type of extracted contents. \<open>float_str\<close> prints a float; \<open>future_exception\<close> is
  the exception, if any, with which the executor fails to deliver the result of a task.
\<close>

record ('d, 'c) env =
  cfg :: config
  path_exists :: "string \<Rightarrow> bool"
  os_access :: "string \<Rightarrow> exn + bool"
  getsize :: "string \<Rightarrow> int option"
  magic_from_file :: "string \<Rightarrow> exn + string"
  float_str :: "real \<Rightarrow> string"
  mkdir :: "string \<Rightarrow> exn option"
  antiword :: "string \<Rightarrow> exn + (int \<times> string \<times> string)"
  text_document :: "string \<Rightarrow> exn + 'd"
  Document :: "string \<Rightarrow> exn + 'd"
  read_content :: "'d \<Rightarrow> exn + 'c"
  build_pdf :: "'c \<Rightarrow> string \<Rightarrow> exn option"
  future_exception :: "string \<Rightarrow> string \<Rightarrow> exn option"
  cpu_count :: int

section \<open>\<^verbatim>\<open>validators/file_validator.py\<close>\<close>

definition file_exists :: "('d, 'c) env \<Rightarrow> string \<Rightarrow> bool" where
  "file_exists e fp = path_exists e fp"

definition is_readable :: "('d, 'c) env \<Rightarrow> string \<Rightarrow> exn + bool" where
  "is_readable e fp = os_access e fp"

definition has_valid_extension :: "('d, 'c) env \<Rightarrow> string \<Rightarrow> bool" where
  "has_valid_extension e fp = is_supported_extension (cfg e) (lower (suffix (Path fp)))"

text \<open>\<^verbatim>\<open>os.path.getsize\<close> raising \<^verbatim>\<open>OSError\<close> is \<open>None\<close>.\<close>

definition has_valid_size :: "('d, 'c) env \<Rightarrow> string \<Rightarrow> bool" where
  "has_valid_size e fp =
     (case getsize e fp of None \<Rightarrow> False | Some file_size \<Rightarrow> file_size \<le> max_file_size (cfg e))"

definition get_file_size_mb :: "('d, 'c) env \<Rightarrow> string \<Rightarrow> real" where
  "get_file_size_mb e fp =
     (case getsize e fp of None \<Rightarrow> 0 | Some size_bytes \<Rightarrow> real_of_int size_bytes / (1024 * 1024))"

text \<open>A magic-number lookup that raises counts as valid.\<close>

definition is_valid_file :: "('d, 'c) env \<Rightarrow> string \<Rightarrow> bool" where
  "is_valid_file e fp =
     (if endswith (lower fp) ''.docx'' then
        (case magic_from_file e fp of
           Inl _ \<Rightarrow> True
         | Inr mime_type \<Rightarrow> mime_type \<in> set
             [''application/vnd.openxmlformats-officedocument.wordprocessingml.document'',
              ''application/zip''])
      else if endswith (lower fp) ''.doc'' then
        (case magic_from_file e fp of
           Inl _ \<Rightarrow> True
         | Inr mime_type \<Rightarrow> mime_type \<in> set [''application/msword'', ''application/vnd.ms-word''])
      else True)"

text \<open>
  \<^verbatim>\<open>FileValidator.validate_file\<close>. Of the calls inside its \<^verbatim>\<open>try\<close> only \<^verbatim>\<open>os.access\<close> can
  raise (the size and magic helpers catch their own exceptions), and the handler turns
  that into an invalid file: the function never raises.
\<close>

definition validate_file :: "('d, 'c) env \<Rightarrow> string \<Rightarrow> bool \<times> string option" where
  "validate_file e fp =
     (if \<not> file_exists e fp then (False, Some (''Archivo no encontrado: '' @ fp))
      else case is_readable e fp of
        Inl ex \<Rightarrow> (False, Some (''Error de validaci'' @ o_acute @ ''n: '' @ str_exn ex))
      | Inr readable \<Rightarrow>
          if \<not> readable then (False, Some (''Sin permisos de lectura: '' @ fp))
          else if \<not> has_valid_extension e fp then
            (False, Some (''Extensi'' @ o_acute @ ''n no soportada: '' @ suffix (Path fp)))
          else if \<not> has_valid_size e fp then
            (False, Some (''Archivo demasiado grande: '' @ float_str e (get_file_size_mb e fp) @ ''MB''))
          else if \<not> is_valid_file e fp then
            (False, Some (''Archivo corrupto o no v'' @ a_acute @ ''lido: '' @ fp))
          else (True, None))"

section \<open>\<^verbatim>\<open>validators/batch_validator.py\<close>\<close>

record batch_result =
  valid :: "string list"
  invalid :: "string list"
  batch_errors :: "string list"

definition max_files_per_batch :: nat where
  "max_files_per_batch = 100"

text \<open>
  The loop of \<^verbatim>\<open>validate_batch\<close>. Its \<^verbatim>\<open>except\<close> branch cannot be taken, since
  \<^verbatim>\<open>validate_file\<close> never raises.
\<close>

fun validate_each :: "('d, 'c) env \<Rightarrow> string list \<Rightarrow> batch_result \<Rightarrow> batch_result" where
  "validate_each e [] acc = acc"
| "validate_each e (fp # rest) acc =
     (case validate_file e fp of (is_valid, error_msg) \<Rightarrow>
        validate_each e rest
          (if is_valid then acc\<lparr>valid := valid acc @ [fp]\<rparr>
           else acc\<lparr>invalid := invalid acc @ [fp],
                    batch_errors := batch_errors acc @ [fp @ '': '' @ fmt_opt error_msg]\<rparr>))"

definition validate_batch :: "('d, 'c) env \<Rightarrow> string list \<Rightarrow> batch_result" where
  "validate_batch e file_paths =
     (if length file_paths > max_files_per_batch then
        \<lparr>valid = [], invalid = file_paths,
         batch_errors = [''Demasiados archivos ('' @ str_nat (length file_paths) @ ''). M''
                         @ a_acute @ ''ximo: '' @ str_nat max_files_per_batch]\<rparr>
      else validate_each e file_paths \<lparr>valid = [], invalid = [], batch_errors = []\<rparr>)"

section \<open>\<^verbatim>\<open>converters/pdf_generator.py\<close> and \<^verbatim>\<open>converters/document_converter.py\<close>\<close>

text \<open>
  \<^verbatim>\<open>PDFGenerator.generate_pdf\<close>: building the PDF is the library's work; whatever it raises
  is raised again as \<^verbatim>\<open>PDFGenerationError\<close>, and otherwise the result is \<^verbatim>\<open>True\<close>.
\<close>

definition generate_pdf :: "('d, 'c) env \<Rightarrow> 'c \<Rightarrow> string \<Rightarrow> exn + bool" where
  "generate_pdf e content output_path =
     (case build_pdf e content output_path of
        None \<Rightarrow> Inr True
      | Some ex \<Rightarrow> Inl (pdf_generation_error (''Error generando PDF: '' @ str_exn ex) (Some output_path)))"

definition load_doc_file :: "('d, 'c) env \<Rightarrow> string \<Rightarrow> exn + 'd" where
  "load_doc_file e fp =
     (case (case antiword e fp of
              Inl ex \<Rightarrow> Inl ex
            | Inr (returncode, out, err) \<Rightarrow>
                if returncode \<noteq> 0 then
                  Inl (conversion_error (''Error ejecutando antiword: '' @ err) None)
                else text_document e out) of
        Inl ex \<Rightarrow> Inl (conversion_error (''Error procesando archivo .doc: '' @ str_exn ex) (Some fp))
      | Inr doc \<Rightarrow> Inr doc)"

definition load_document :: "('d, 'c) env \<Rightarrow> string \<Rightarrow> exn + 'd" where
  "load_document e fp =
     (case (if \<not> (endswith (lower fp) ''.doc'' \<or> endswith (lower fp) ''.docx'') then
              Inl (conversion_error (''Formato no soportado: '' @ suffix (Path fp)) None)
            else if endswith (lower fp) ''.doc'' then load_doc_file e fp
            else Document e fp) of
        Inl ex \<Rightarrow> Inl (conversion_error (''No se pudo cargar el documento: '' @ str_exn ex) (Some fp))
      | Inr doc \<Rightarrow> Inr doc)"

definition extract_content :: "('d, 'c) env \<Rightarrow> 'd \<Rightarrow> exn + 'c" where
  "extract_content e doc =
     (case read_content e doc of
        Inl ex \<Rightarrow> Inl (conversion_error (''Error extrayendo contenido: '' @ str_exn ex) None)
      | Inr content \<Rightarrow> Inr content)"

text \<open>
  \<^verbatim>\<open>DocumentConverter.convert_document\<close>. The inner value is the body of the \<^verbatim>\<open>try\<close>, the
  outer \<^verbatim>\<open>case\<close> its handler. The counters of \<^verbatim>\<open>conversion_stats\<close> are left out: every
  task builds a converter of its own and nothing reads them. The decorator
  \<^verbatim>\<open>log_execution_time\<close> passes results and exceptions through unchanged.
\<close>

definition convert_document :: "('d, 'c) env \<Rightarrow> string \<Rightarrow> string \<Rightarrow> exn + bool" where
  "convert_document e input_path output_path =
     (case (if \<not> path_exists e input_path then
              Inl (conversion_error (''Archivo de entrada no encontrado: '' @ input_path) None)
            else case mkdir e (path_str (parent (Path output_path))) of
              Some ex \<Rightarrow> Inl ex
            | None \<Rightarrow>
                (case load_document e input_path of
                   Inl ex \<Rightarrow> Inl ex
                 | Inr doc \<Rightarrow>
                     (case extract_content e doc of
                        Inl ex \<Rightarrow> Inl ex
                      | Inr content \<Rightarrow>
                          (case generate_pdf e content output_path of
                             Inl ex \<Rightarrow> Inl ex
                           | Inr success \<Rightarrow>
                               if success then Inr success
                               else Inl (pdf_generation_error
                                           (''No se pudo generar el PDF: '' @ output_path) None))))) of
        Inl ex \<Rightarrow> Inl (conversion_error (''Error de conversi'' @ o_acute @ ''n: '' @ str_exn ex)
                         (Some input_path))
      | Inr success \<Rightarrow> Inr success)"

section \<open>\<^verbatim>\<open>converters/parallel_processor.py\<close>\<close>

text \<open>
  Python's integers are \<open>int\<close>. Times and rates are floats in the code and reals here: no
  rounding is modelled.
\<close>

record proc_stats =
  total_files :: int
  processed_files :: int
  successful_conversions :: int
  failed_conversions :: int
  start_time :: "real option"
  end_time :: "real option"

record processor =
  max_workers :: int
  self_stats :: proc_stats

definition initial_stats :: proc_stats where
  "initial_stats = \<lparr>total_files = 0, processed_files = 0, successful_conversions = 0,
     failed_conversions = 0, start_time = None, end_time = None\<rparr>"

text \<open>
  \<^verbatim>\<open>ParallelProcessor.__init__\<close>: \<^verbatim>\<open>max_workers or config.max_workers\<close> takes the
  configured value when the argument is \<^verbatim>\<open>None\<close> and also when it is \<^verbatim>\<open>0\<close>.
\<close>

definition init :: "config \<Rightarrow> int option \<Rightarrow> processor" where
  "init c max_workers_arg =
     \<lparr>max_workers = (case max_workers_arg of
                        None \<Rightarrow> config_max_workers c
                      | Some m \<Rightarrow> if m \<noteq> 0 then m else config_max_workers c),
      self_stats = initial_stats\<rparr>"

definition reset_stats :: "processor \<Rightarrow> processor" where
  "reset_stats p = p\<lparr>self_stats := initial_stats\<rparr>"

definition set_max_workers :: "int \<Rightarrow> processor \<Rightarrow> processor" where
  "set_max_workers m p = p\<lparr>max_workers := m\<rparr>"

definition get_optimal_worker_count :: "('d, 'c) env \<Rightarrow> processor \<Rightarrow> int \<Rightarrow> int" where
  "get_optimal_worker_count e p file_count =
     (if file_count \<le> 5 then min 2 (cpu_count e)
      else if file_count \<le> 20 then min 4 (cpu_count e)
      else min (max_workers p) (cpu_count e))"

record success_entry =
  s_input :: string
  s_output :: string

record failed_entry =
  f_input :: string
  f_error :: "string option"

record final_stats =
  res_total_files :: int
  res_processed_files :: int
  res_successful_conversions :: int
  res_failed_conversions :: int
  success_rate :: real
  total_time :: real
  average_time_per_file :: real
  files_per_minute :: real

record results =
  successful :: "success_entry list"
  failed :: "failed_entry list"
  errors :: "string list"
  stats :: final_stats

definition validate_input_files :: "('d, 'c) env \<Rightarrow> string list \<Rightarrow> string list" where
  "validate_input_files e input_files = filter (\<lambda>fp. fst (validate_file e fp)) input_files"

definition calculate_final_stats :: "proc_stats \<Rightarrow> final_stats" where
  "calculate_final_stats s =
     (let total_time = (case (start_time s, end_time s) of
                          (Some t0, Some t1) \<Rightarrow> t1 - t0
                        | _ \<Rightarrow> 0);
          success_rate = (if processed_files s > 0
                          then real_of_int (successful_conversions s) / real_of_int (processed_files s) * 100
                          else 0)
      in \<lparr>res_total_files = total_files s,
          res_processed_files = processed_files s,
          res_successful_conversions = successful_conversions s,
          res_failed_conversions = failed_conversions s,
          success_rate = success_rate,
          total_time = total_time,
          average_time_per_file = (if processed_files s > 0
                                   then total_time / real_of_int (processed_files s) else 0),
          files_per_minute = (if total_time > 0
                              then real_of_int (processed_files s) / total_time * 60 else 0)\<rparr>)"

definition create_error_result :: "processor \<Rightarrow> string \<Rightarrow> results" where
  "create_error_result p error_message =
     \<lparr>successful = [], failed = [], errors = [error_message],
      stats = \<lparr>res_total_files = total_files (self_stats p),
               res_processed_files = 0,
               res_successful_conversions = 0,
               res_failed_conversions = 0,
               success_rate = 0,
               total_time = 0,
               average_time_per_file = 0,
               files_per_minute = 0\<rparr>\<rparr>"

text \<open>\<^verbatim>\<open>_convert_single_file\<close>, the task run in a worker: it never raises.\<close>

definition convert_single_file ::
  "('d, 'c) env \<Rightarrow> string \<Rightarrow> string \<Rightarrow> bool \<times> string \<times> string option" where
  "convert_single_file e input_path output_path =
     (case convert_document e input_path output_path of
        Inr success \<Rightarrow>
          if success then (True, output_path, None)
          else (False, output_path, Some (''Error en conversi'' @ o_acute @ ''n''))
      | Inl ex \<Rightarrow> (False, output_path, Some (str_exn ex)))"

text \<open>
  \<^verbatim>\<open>ProcessPoolExecutor(max_workers=m)\<close> raises \<^verbatim>\<open>ValueError\<close> unless \<open>m\<close> is positive;
  otherwise the pool has \<open>m\<close> workers.
\<close>

definition ProcessPoolExecutor :: "int \<Rightarrow> exn + int" where
  "ProcessPoolExecutor m =
     (if m \<le> 0 then Inl (other_exception ''max_workers must be greater than 0'') else Inr m)"

text \<open>
  A submitted task is the pair of arguments of \<^verbatim>\<open>_convert_single_file\<close>.
  \<^verbatim>\<open>future.result()\<close> is what the task returned, unless the executor failed to deliver it.
\<close>

definition future_result ::
  "('d, 'c) env \<Rightarrow> string \<times> string \<Rightarrow> exn + (bool \<times> string \<times> string option)" where
  "future_result e task =
     (case future_exception e (fst task) (snd task) of
        Some ex \<Rightarrow> Inl ex
      | None \<Rightarrow> Inr (convert_single_file e (fst task) (snd task)))"

text \<open>
  \<^verbatim>\<open>as_completed\<close> yields every future once, in the order in which they finish. That order
  is not the code's to choose: it is the schedule \<open>sched\<close>, whose next number picks one of
  the futures still pending.
\<close>

function as_completed :: "nat list \<Rightarrow> 'a list \<Rightarrow> 'a list" where
  "as_completed sched [] = []"
| "as_completed sched (x # xs) =
     (let pending = x # xs;
          k = (case sched of [] \<Rightarrow> 0 | s # _ \<Rightarrow> s mod length pending)
      in pending ! k # as_completed (tl sched) (take k pending @ drop (Suc k) pending))"
  by pat_completeness auto
termination
  by (relation "measure (\<lambda>(sched, pending). length pending)") (auto split: list.splits)

text \<open>One turn of the result loop of \<^verbatim>\<open>_process_parallel\<close>.\<close>

definition record_result ::
  "('d, 'c) env \<Rightarrow> results \<times> proc_stats \<Rightarrow> string \<times> string \<Rightarrow> results \<times> proc_stats" where
  "record_result e acc task =
     (case acc of (res, s) \<Rightarrow>
        (let file_path = fst task in
         case future_result e task of
           Inr (success, output_path, error_msg) \<Rightarrow>
             if success then
               (res\<lparr>successful := successful res @ [\<lparr>s_input = file_path, s_output = output_path\<rparr>]\<rparr>,
                s\<lparr>successful_conversions := successful_conversions s + 1\<rparr>)
             else
               (res\<lparr>failed := failed res @ [\<lparr>f_input = file_path, f_error = error_msg\<rparr>],
                    errors := errors res @ [file_path @ '': '' @ fmt_opt error_msg]\<rparr>,
                s\<lparr>failed_conversions := failed_conversions s + 1\<rparr>)
         | Inl ex \<Rightarrow>
             (res\<lparr>failed := failed res @ [\<lparr>f_input = file_path, f_error = Some (str_exn ex)\<rparr>],
                  errors := errors res @ [file_path @ '': Error inesperado - '' @ str_exn ex]\<rparr>,
              s\<lparr>failed_conversions := failed_conversions s + 1\<rparr>)))"

text \<open>
  What a call leaves behind: the returned dictionary, the processor afterwards, the tasks
  handed to \<^verbatim>\<open>executor.submit\<close> in order, and the size of the pool when one was created.
\<close>

record run =
  result :: results
  self_after :: processor
  submitted :: "(string \<times> string) list"
  pool :: "int option"

text \<open>
  \<^verbatim>\<open>_process_parallel\<close>. Creating the output directory or the pool may raise, before any
  task is submitted and before the statistics change; the exception goes to the caller.
  The \<^verbatim>\<open>stats\<close> of the fresh result, an empty dictionary in the code, is a placeholder here:
  the last step replaces it.
\<close>

definition process_parallel ::
  "('d, 'c) env \<Rightarrow> nat list \<Rightarrow> processor \<Rightarrow> string list \<Rightarrow> string \<Rightarrow> exn + run" where
  "process_parallel e sched p input_files output_dir =
     (case mkdir e (path_str (Path output_dir)) of
        Some ex \<Rightarrow> Inl ex
      | None \<Rightarrow>
          (case ProcessPoolExecutor (max_workers p) of
             Inl ex \<Rightarrow> Inl ex
           | Inr workers \<Rightarrow>
               (let future_to_file = map (\<lambda>file_path. (file_path, get_output_path file_path output_dir))
                                       input_files;
                    (res, s) = foldl (record_result e)
                                 (\<lparr>successful = [], failed = [], errors = [],
                                   stats = calculate_final_stats (self_stats p)\<rparr>, self_stats p)
                                 (as_completed sched future_to_file)
                in Inr \<lparr>result = res\<lparr>stats := calculate_final_stats s\<rparr>,
                        self_after = p\<lparr>self_stats := s\<rparr>,
                        submitted = future_to_file,
                        pool = Some workers\<rparr>)))"

text \<open>
  \<^verbatim>\<open>process_files\<close>, with the two readings \<open>t0\<close> and \<open>t1\<close> of the clock. The progress
  tracker it creates is never used and is left out. The handler of the \<^verbatim>\<open>try\<close> is the
  \<open>Inl\<close> branch.
\<close>

definition process_files ::
  "('d, 'c) env \<Rightarrow> nat list \<Rightarrow> real \<Rightarrow> real \<Rightarrow> processor \<Rightarrow> string list \<Rightarrow> string \<Rightarrow> run" where
  "process_files e sched t0 t1 p input_files output_dir =
     (let p1 = p\<lparr>self_stats := (self_stats p)\<lparr>total_files := int (length input_files),
                                               start_time := Some t0\<rparr>\<rparr>;
          valid_files = validate_input_files e input_files
      in if valid_files = [] then
           \<lparr>result = create_error_result p1 (''No hay archivos v'' @ a_acute @ ''lidos para procesar''),
            self_after = p1, submitted = [], pool = None\<rparr>
         else
           (case process_parallel e sched p1 valid_files output_dir of
              Inr r \<Rightarrow>
                r\<lparr>self_after := (self_after r)\<lparr>self_stats := (self_stats (self_after r))
                     \<lparr>end_time := Some t1, processed_files := int (length valid_files)\<rparr>\<rparr>\<rparr>
            | Inl ex \<Rightarrow>
                (let p2 = p1\<lparr>self_stats := (self_stats p1)\<lparr>end_time := Some t1\<rparr>\<rparr>
                 in \<lparr>result = create_error_result p2 (''Error de procesamiento: '' @ str_exn ex),
                     self_after = p2, submitted = [], pool = None\<rparr>)))"

section \<open>A sample environment\<close>

text \<open>
  An environment to run the model in: every path exists, is readable, holds 1024 bytes of
  a Word document, the output directories can be created, and every step of a conversion
  works. Documents and contents carry no data.
\<close>

definition sample_env :: "(unit, unit) env" where
  "sample_env =
     \<lparr>cfg = default_config,
      path_exists = (\<lambda>_. True),
      os_access = (\<lambda>_. Inr True),
      getsize = (\<lambda>_. Some 1024),
      magic_from_file = (\<lambda>_. Inr ''application/zip''),
      float_str = (\<lambda>_. ''0.0''),
      mkdir = (\<lambda>_. None),
      antiword = (\<lambda>_. Inr (0, [], [])),
      text_document = (\<lambda>_. Inr ()),
      Document = (\<lambda>_. Inr ()),
      read_content = (\<lambda>_. Inr ()),
      build_pdf = (\<lambda>_ _. None),
      future_exception = (\<lambda>_ _. None),
      cpu_count = 8\<rparr>"

section \<open>Notions used to state the properties\<close>

text \<open>The task submitted for an input file.\<close>

definition task_of :: "string \<Rightarrow> string \<Rightarrow> string \<times> string" where
  "task_of output_dir input_path = (input_path, get_output_path input_path output_dir)"

text \<open>A task counts as successful when its result arrives and its first component is true.\<close>

definition task_succeeds :: "('d, 'c) env \<Rightarrow> string \<times> string \<Rightarrow> bool" where
  "task_succeeds e task = (case future_result e task of Inr (success, _, _) \<Rightarrow> success | Inl _ \<Rightarrow> False)"

text \<open>The error text kept for a task that did not succeed.\<close>

definition task_error :: "('d, 'c) env \<Rightarrow> string \<times> string \<Rightarrow> string option" where
  "task_error e task =
     (case future_result e task of Inr (_, _, error_msg) \<Rightarrow> error_msg | Inl ex \<Rightarrow> Some (str_exn ex))"

text \<open>The line added to \<^verbatim>\<open>results['errors']\<close> for a task that did not succeed.\<close>

definition task_error_line :: "('d, 'c) env \<Rightarrow> string \<times> string \<Rightarrow> string" where
  "task_error_line e task =
     (case future_result e task of
        Inr (_, _, error_msg) \<Rightarrow> fst task @ '': '' @ fmt_opt error_msg
      | Inl ex \<Rightarrow> fst task @ '': Error inesperado - '' @ str_exn ex)"

text \<open>A call reaches the fan-out when the output directory and the pool can be created.\<close>

definition pool_starts :: "('d, 'c) env \<Rightarrow> processor \<Rightarrow> string \<Rightarrow> bool" where
  "pool_starts e p output_dir = (mkdir e (path_str (Path output_dir)) = None \<and> 0 < max_workers p)"

text \<open>The same environment, except that the PDF \<^verbatim>\<open>out/b.pdf\<close> cannot be written.\<close>

definition disk_full_env :: "(unit, unit) env" where
  "disk_full_env =
     sample_env\<lparr>build_pdf := \<lambda>_ output_path.
       if output_path = ''out/b.pdf'' then Some (other_exception ''disk full'') else None\<rparr>"

section \<open>Properties of the path functions\<close>

lemma split_sep_ne: "split_sep s \<noteq> []"
  by (induction s) (auto split: list.splits)

lemma split_sep_no_slash: "CHR ''/'' \<notin> set s \<Longrightarrow> split_sep s = [s]"
  by (induction s) (auto split: list.splits)

lemma split_sep_parts: "x \<in> set (split_sep s) \<Longrightarrow> CHR ''/'' \<notin> set x"
  by (induction s arbitrary: x) (auto split: list.splits if_splits)

lemma splitroot_snd_set: "set (snd (splitroot s)) \<subseteq> set s"
  by (auto simp: splitroot_def Let_def dest: set_dropWhileD)

lemma parts_no_slash: "x \<in> set (parts (Path s)) \<Longrightarrow> CHR ''/'' \<notin> set x"
  by (auto simp: Path_def split: prod.splits dest: split_sep_parts)

lemma parts_nonempty: "x \<in> set (parts (Path s)) \<Longrightarrow> x \<noteq> []"
  by (auto simp: Path_def split: prod.splits)

lemma name_no_slash: "CHR ''/'' \<notin> set (name (Path s))"
  using parts_no_slash[of "last (parts (Path s))" s] by (auto simp: name_def)

lemma stem_no_slash: "CHR ''/'' \<notin> set (stem (Path s))"
  using name_no_slash[of s] by (auto simp: stem_def Let_def dest: in_set_takeD)

lemma Path_single: "CHR ''/'' \<notin> set s \<Longrightarrow> s \<noteq> [] \<Longrightarrow> s \<noteq> ''.'' \<Longrightarrow> Path s = \<lparr>root = [], parts = [s]\<rparr>"
  by (cases s) (auto simp: Path_def splitroot_def split_sep_no_slash)

lemma truediv_file: "truediv p (stem (Path i) @ ''.pdf'') = \<lparr>root = root p, parts = parts p @ [stem (Path i) @ ''.pdf'']\<rparr>"
proof -
  have "Path (stem (Path i) @ ''.pdf'') = \<lparr>root = [], parts = [stem (Path i) @ ''.pdf'']\<rparr>"
    by (rule Path_single) (use stem_no_slash[of i] in auto)
  then show ?thesis by (simp add: truediv_def)
qed

lemma join_sep_snoc: "ps \<noteq> [] \<Longrightarrow> join_sep (ps @ [f]) = join_sep ps @ ''/'' @ f"
  by (induction ps rule: join_sep.induct) auto

lemma join_sep_last: "ps \<noteq> [] \<Longrightarrow> \<forall>x\<in>set ps. x \<noteq> [] \<Longrightarrow> join_sep ps \<noteq> [] \<and> last (join_sep ps) = last (last ps)"
  by (induction ps rule: join_sep.induct) auto

lemma root_cases: "root (Path s) = [] \<or> root (Path s) = ''/'' \<or> root (Path s) = ''//''"
  by (auto simp: Path_def splitroot_def Let_def split: prod.splits)

lemma parts_not_dot: "x \<in> set (parts (Path s)) \<Longrightarrow> x \<noteq> ''.''"
  by (auto simp: Path_def split: prod.splits)

lemma join_sep_not_dot:
  assumes "ps \<noteq> []" "\<forall>x\<in>set ps. x \<noteq> [] \<and> x \<noteq> ''.''"
  shows "join_sep ps \<noteq> ''.''"
proof (cases ps rule: join_sep.cases)
  case 1 with assms show ?thesis by simp
next
  case (2 p) with assms show ?thesis by simp
next
  case (3 p q qs)
  with assms have "p \<noteq> []" by simp
  then have "length (join_sep ps) \<ge> 2" using 3 by (cases p) auto
  then show ?thesis by auto
qed

lemma path_str_parts:
  assumes "parts (Path d) \<noteq> []"
  shows "path_str (Path d) = root (Path d) @ join_sep (parts (Path d))"
    and "path_str (Path d) \<noteq> ''.''"
    and "last (path_str (Path d)) \<noteq> CHR ''/''"
proof -
  let ?ps = "parts (Path d)"
  have ne: "\<forall>x\<in>set ?ps. x \<noteq> []" using parts_nonempty by blast
  have j: "join_sep ?ps \<noteq> []" "last (join_sep ?ps) = last (last ?ps)"
    using join_sep_last[OF assms ne] by simp_all
  show s: "path_str (Path d) = root (Path d) @ join_sep ?ps"
    using j by (simp add: path_str_def Let_def)
  have "join_sep ?ps \<noteq> ''.''"
    by (rule join_sep_not_dot[OF assms]) (use parts_nonempty parts_not_dot in blast)
  then show "path_str (Path d) \<noteq> ''.''"
    using root_cases[of d] j s by (auto simp: append_eq_Cons_conv)
  have "last ?ps \<in> set ?ps" using assms by simp
  then have "last ?ps \<noteq> []" "CHR ''/'' \<notin> set (last ?ps)"
    using parts_nonempty parts_no_slash by blast+
  then have "last (last ?ps) \<noteq> CHR ''/''" using last_in_set by metis
  then show "last (path_str (Path d)) \<noteq> CHR ''/''" using s j by simp
qed


lemma stem_report_a: "stem (Path ''a/report.docx'') = ''report''"
  by (simp add: stem_def Path_def splitroot_def name_def Let_def)

lemma stem_report_b: "stem (Path ''b/report.docx'') = ''report''"
  by (simp add: stem_def Path_def splitroot_def name_def Let_def)

lemma get_output_path_joined:
  "get_output_path i d = joined_output (path_str (Path d)) (stem (Path i) @ ''.pdf'')"
proof (cases "parts (Path d) = []")
  case True
  then show ?thesis
    using root_cases[of d]
    by (auto simp: get_output_path_def Let_def truediv_file path_str_def joined_output_def)
next
  case False
  from path_str_parts[OF False] False show ?thesis
    by (simp add: get_output_path_def Let_def truediv_file joined_output_def join_sep_snoc)
       (simp add: path_str_def Let_def join_sep_snoc)
qed

text \<open>
  C7. For every input path and output directory, \<^verbatim>\<open>_get_output_path\<close> returns the output
  directory joined with the stem of the input file and \<^verbatim>\<open>'.pdf'\<close>. The result depends on
  the input only through its stem, so the distinct inputs \<^verbatim>\<open>a/report.docx\<close> and
  \<^verbatim>\<open>b/report.docx\<close> get the same output path in every directory; in the directory
  \<^verbatim>\<open>out\<close> it is \<^verbatim>\<open>out/report.pdf\<close>.
\<close>

theorem get_output_path_stem_pdf:
  "get_output_path input_path output_dir =
     joined_output (path_str (Path output_dir)) (stem (Path input_path) @ ''.pdf'')
   \<and> ''a/report.docx'' \<noteq> ''b/report.docx''
   \<and> get_output_path ''a/report.docx'' output_dir = get_output_path ''b/report.docx'' output_dir
   \<and> get_output_path ''a/report.docx'' ''out'' = ''out/report.pdf''"
proof -
  have "get_output_path ''a/report.docx'' ''out'' = ''out/report.pdf''"
    by code_simp
  then show ?thesis
    by (simp add: get_output_path_joined stem_report_a stem_report_b)
qed

section \<open>The result loop\<close>

lemma mset_remove_nth:
  "k < length xs \<Longrightarrow> add_mset (xs ! k) (mset (take k xs @ drop (Suc k) xs)) = mset xs"
  by (metis add_mset_add_single id_take_nth_drop mset.simps(2) mset_append union_mset_add_mset_right)

lemma mset_as_completed: "mset (as_completed sched xs) = mset xs"
proof (induction sched xs rule: as_completed.induct)
  case (1 sched)
  then show ?case by simp
next
  case (2 sched x xs)
  define k where "k = (case sched of [] \<Rightarrow> 0 | s # _ \<Rightarrow> s mod length (x # xs))"
  have k: "k < length (x # xs)" by (auto simp: k_def split: list.splits)
  have "mset (as_completed (tl sched) (take k (x # xs) @ drop (Suc k) (x # xs)))
        = mset (take k (x # xs) @ drop (Suc k) (x # xs))"
    using "2.IH"[of "x # xs" k] by (simp add: k_def)
  then have "mset (as_completed sched (x # xs))
        = add_mset ((x # xs) ! k) (mset (take k (x # xs) @ drop (Suc k) (x # xs)))"
    by (simp add: Let_def k_def del: mset_append)
  then show ?case using mset_remove_nth[OF k] by simp
qed

lemma set_as_completed: "set (as_completed sched xs) = set xs"
  using mset_as_completed[of sched xs] by (metis set_mset_mset)

lemma convert_single_file_output: "fst (snd (convert_single_file e i out)) = out"
  by (simp add: convert_single_file_def split: sum.splits)

lemma record_result_cases:
  "record_result e (res, s) t =
     (if task_succeeds e t then
        (res\<lparr>successful := successful res @ [\<lparr>s_input = fst t, s_output = snd t\<rparr>]\<rparr>,
         s\<lparr>successful_conversions := successful_conversions s + 1\<rparr>)
      else
        (res\<lparr>failed := failed res @ [\<lparr>f_input = fst t, f_error = task_error e t\<rparr>],
             errors := errors res @ [task_error_line e t]\<rparr>,
         s\<lparr>failed_conversions := failed_conversions s + 1\<rparr>))"
  using convert_single_file_output[of e "fst t" "snd t"]
  by (auto simp: record_result_def task_succeeds_def task_error_def task_error_line_def
      future_result_def Let_def split: sum.splits option.splits prod.splits)

lemma foldl_record_result:
  "foldl (record_result e) (res, s) ts =
     (res\<lparr>successful := successful res
              @ map (\<lambda>t. \<lparr>s_input = fst t, s_output = snd t\<rparr>) (filter (task_succeeds e) ts),
          failed := failed res
              @ map (\<lambda>t. \<lparr>f_input = fst t, f_error = task_error e t\<rparr>)
                  (filter (\<lambda>t. \<not> task_succeeds e t) ts),
          errors := errors res @ map (task_error_line e) (filter (\<lambda>t. \<not> task_succeeds e t) ts)\<rparr>,
      s\<lparr>successful_conversions := successful_conversions s + int (length (filter (task_succeeds e) ts)),
        failed_conversions := failed_conversions s
              + int (length (filter (\<lambda>t. \<not> task_succeeds e t) ts))\<rparr>)"
proof (induction ts arbitrary: res s)
  case Nil
  then show ?case by simp
next
  case (Cons t ts)
  show ?case
    by (cases "task_succeeds e t") (simp_all add: record_result_cases Cons.IH)
qed

section \<open>The fan-out\<close>

lemma process_parallel_ok:
  assumes "pool_starts e p d"
  shows "process_parallel e sched p v d =
     Inr \<lparr>result =
            \<lparr>successful = map (\<lambda>t. \<lparr>s_input = fst t, s_output = snd t\<rparr>)
                            (filter (task_succeeds e) (as_completed sched (map (task_of d) v))),
             failed = map (\<lambda>t. \<lparr>f_input = fst t, f_error = task_error e t\<rparr>)
                        (filter (\<lambda>t. \<not> task_succeeds e t) (as_completed sched (map (task_of d) v))),
             errors = map (task_error_line e)
                        (filter (\<lambda>t. \<not> task_succeeds e t) (as_completed sched (map (task_of d) v))),
             stats = calculate_final_stats ((self_stats p)
                \<lparr>successful_conversions := successful_conversions (self_stats p)
                    + int (length (filter (task_succeeds e) (as_completed sched (map (task_of d) v)))),
                 failed_conversions := failed_conversions (self_stats p)
                    + int (length (filter (\<lambda>t. \<not> task_succeeds e t) (as_completed sched (map (task_of d) v))))\<rparr>)\<rparr>,
           self_after = p\<lparr>self_stats := (self_stats p)
                \<lparr>successful_conversions := successful_conversions (self_stats p)
                    + int (length (filter (task_succeeds e) (as_completed sched (map (task_of d) v)))),
                 failed_conversions := failed_conversions (self_stats p)
                    + int (length (filter (\<lambda>t. \<not> task_succeeds e t) (as_completed sched (map (task_of d) v))))\<rparr>\<rparr>,
           submitted = map (task_of d) v,
           pool = Some (max_workers p)\<rparr>"
proof -
  have tasks: "map (\<lambda>file_path. (file_path, get_output_path file_path d)) v = map (task_of d) v"
    by (simp add: task_of_def)
  from assms show ?thesis
    by (simp add: process_parallel_def pool_starts_def ProcessPoolExecutor_def Let_def tasks
        foldl_record_result)
qed

lemma process_parallel_fail:
  assumes "\<not> pool_starts e p d"
  shows "\<exists>ex. process_parallel e sched p v d = Inl ex"
  using assms
  by (auto simp: process_parallel_def pool_starts_def ProcessPoolExecutor_def split: option.splits)

section \<open>process_files\<close>

lemma pool_starts_stats [simp]: "pool_starts e (p\<lparr>self_stats := s\<rparr>) d = pool_starts e p d"
  by (simp add: pool_starts_def)

lemma process_files_ok:
  assumes "validate_input_files e xs \<noteq> []" and "pool_starts e p d"
  shows "successful (result (process_files e sched t0 t1 p xs d)) =
           map (\<lambda>t. \<lparr>s_input = fst t, s_output = snd t\<rparr>)
             (filter (task_succeeds e)
                (as_completed sched (map (task_of d) (validate_input_files e xs))))"
    and "failed (result (process_files e sched t0 t1 p xs d)) =
           map (\<lambda>t. \<lparr>f_input = fst t, f_error = task_error e t\<rparr>)
             (filter (\<lambda>t. \<not> task_succeeds e t)
                (as_completed sched (map (task_of d) (validate_input_files e xs))))"
    and "errors (result (process_files e sched t0 t1 p xs d)) =
           map (task_error_line e)
             (filter (\<lambda>t. \<not> task_succeeds e t)
                (as_completed sched (map (task_of d) (validate_input_files e xs))))"
    and "submitted (process_files e sched t0 t1 p xs d) =
           map (task_of d) (validate_input_files e xs)"
    and "pool (process_files e sched t0 t1 p xs d) = Some (max_workers p)"
    and "stats (result (process_files e sched t0 t1 p xs d)) =
           calculate_final_stats ((self_stats p)
             \<lparr>total_files := int (length xs), start_time := Some t0,
              successful_conversions := successful_conversions (self_stats p)
                + int (length (filter (task_succeeds e)
                    (as_completed sched (map (task_of d) (validate_input_files e xs))))),
              failed_conversions := failed_conversions (self_stats p)
                + int (length (filter (\<lambda>t. \<not> task_succeeds e t)
                    (as_completed sched (map (task_of d) (validate_input_files e xs)))))\<rparr>)"
  using assms by (simp_all add: process_files_def Let_def process_parallel_ok)

lemma process_files_error:
  assumes "validate_input_files e xs = [] \<or> \<not> pool_starts e p d"
  shows "successful (result (process_files e sched t0 t1 p xs d)) = []"
    and "failed (result (process_files e sched t0 t1 p xs d)) = []"
    and "length (errors (result (process_files e sched t0 t1 p xs d))) = 1"
    and "submitted (process_files e sched t0 t1 p xs d) = []"
    and "pool (process_files e sched t0 t1 p xs d) = None"
    and "stats (result (process_files e sched t0 t1 p xs d)) =
           \<lparr>res_total_files = int (length xs), res_processed_files = 0,
            res_successful_conversions = 0, res_failed_conversions = 0, success_rate = 0,
            total_time = 0, average_time_per_file = 0, files_per_minute = 0\<rparr>"
proof -
  consider "validate_input_files e xs = []"
    | "validate_input_files e xs \<noteq> []" "\<not> pool_starts e p d"
    using assms by blast
  then have "result (process_files e sched t0 t1 p xs d) =
      \<lparr>successful = [], failed = [],
       errors = errors (result (process_files e sched t0 t1 p xs d)),
       stats = \<lparr>res_total_files = int (length xs), res_processed_files = 0,
            res_successful_conversions = 0, res_failed_conversions = 0, success_rate = 0,
            total_time = 0, average_time_per_file = 0, files_per_minute = 0\<rparr>\<rparr>
     \<and> length (errors (result (process_files e sched t0 t1 p xs d))) = 1
     \<and> submitted (process_files e sched t0 t1 p xs d) = []
     \<and> pool (process_files e sched t0 t1 p xs d) = None"
  proof cases
    case 1
    then show ?thesis by (simp add: process_files_def Let_def create_error_result_def)
  next
    case 2
    from process_parallel_fail[of e "p\<lparr>self_stats := (self_stats p)\<lparr>total_files := int (length xs), start_time := Some t0\<rparr>\<rparr>" d sched "validate_input_files e xs"] 2(2)
    obtain ex where "process_parallel e sched (p\<lparr>self_stats := (self_stats p)\<lparr>total_files := int (length xs), start_time := Some t0\<rparr>\<rparr>) (validate_input_files e xs) d = Inl ex"
      by auto
    with 2 show ?thesis by (simp add: process_files_def Let_def create_error_result_def)
  qed
  then show "successful (result (process_files e sched t0 t1 p xs d)) = []"
    and "failed (result (process_files e sched t0 t1 p xs d)) = []"
    and "length (errors (result (process_files e sched t0 t1 p xs d))) = 1"
    and "submitted (process_files e sched t0 t1 p xs d) = []"
    and "pool (process_files e sched t0 t1 p xs d) = None"
    and "stats (result (process_files e sched t0 t1 p xs d)) =
           \<lparr>res_total_files = int (length xs), res_processed_files = 0,
            res_successful_conversions = 0, res_failed_conversions = 0, success_rate = 0,
            total_time = 0, average_time_per_file = 0, files_per_minute = 0\<rparr>"
    by (metis results.select_convs(1), metis results.select_convs(2), simp, simp, simp,
        metis results.select_convs(4))
qed

section \<open>The error result\<close>

lemma sample_invalid: "validate_input_files sample_env [''notes.txt'', ''b.pdf''] = []"
  by code_simp

text \<open>
  C8. If no input file passes validation, \<^verbatim>\<open>process_files\<close> submits no task and creates
  no pool, and it returns the error result: \<^verbatim>\<open>successful\<close> and \<^verbatim>\<open>failed\<close> are empty,
  \<^verbatim>\<open>errors\<close> holds exactly one message, and every statistic is zero except
  \<^verbatim>\<open>total_files\<close>, which is the number of input files given.
\<close>

theorem no_valid_files_error_result:
  assumes "validate_input_files e input_files = []"
  shows "submitted (process_files e sched t0 t1 p input_files output_dir) = []
       \<and> pool (process_files e sched t0 t1 p input_files output_dir) = None
       \<and> successful (result (process_files e sched t0 t1 p input_files output_dir)) = []
       \<and> failed (result (process_files e sched t0 t1 p input_files output_dir)) = []
       \<and> length (errors (result (process_files e sched t0 t1 p input_files output_dir))) = 1
       \<and> stats (result (process_files e sched t0 t1 p input_files output_dir)) =
           \<lparr>res_total_files = int (length input_files), res_processed_files = 0,
            res_successful_conversions = 0, res_failed_conversions = 0, success_rate = 0,
            total_time = 0, average_time_per_file = 0, files_per_minute = 0\<rparr>"
  using assms process_files_error[of e input_files p output_dir sched t0 t1] by simp

theorem no_valid_files_error_result_witness:
  "validate_input_files sample_env [''notes.txt'', ''b.pdf''] = []
   \<and> submitted (process_files sample_env [] 0 1 (init default_config None) [''notes.txt'', ''b.pdf''] ''out'') = []
   \<and> length (errors (result (process_files sample_env [] 0 1 (init default_config None) [''notes.txt'', ''b.pdf''] ''out''))) = 1
   \<and> res_total_files (stats (result (process_files sample_env [] 0 1 (init default_config None) [''notes.txt'', ''b.pdf''] ''out''))) = 2"
  using sample_invalid no_valid_files_error_result[OF sample_invalid, of "[]" 0 1 "init default_config None" "''out''"]
  by simp

section \<open>The batch validator\<close>

lemma validate_each_acc:
  "validate_each e fps acc =
     acc\<lparr>valid := valid acc @ filter (\<lambda>fp. fst (validate_file e fp)) fps,
         invalid := invalid acc @ filter (\<lambda>fp. \<not> fst (validate_file e fp)) fps,
         batch_errors := batch_errors acc
           @ map (\<lambda>fp. fp @ '': '' @ fmt_opt (snd (validate_file e fp)))
               (filter (\<lambda>fp. \<not> fst (validate_file e fp)) fps)\<rparr>"
  by (induction fps arbitrary: acc) (auto split: prod.splits)

lemma mset_partition_filter:
  "mset (filter P xs) + mset (filter (\<lambda>x. \<not> P x) xs) = mset xs"
  by (induction xs) auto

text \<open>
  C10. \<^verbatim>\<open>validate_batch\<close> has a hard limit of 100 files. A list of more than 100 paths is
  not validated at all: \<^verbatim>\<open>valid\<close> is empty, \<^verbatim>\<open>invalid\<close> is the whole input and there is
  exactly one error message. For a list of at most 100 paths \<^verbatim>\<open>valid\<close> holds the paths
  that \<^verbatim>\<open>validate_file\<close> accepts and \<^verbatim>\<open>invalid\<close> the others, in input order, so every
  path is in exactly one of the two lists.
\<close>

theorem validate_batch_limit:
  "(length file_paths > 100 \<longrightarrow>
      valid (validate_batch e file_paths) = []
    \<and> invalid (validate_batch e file_paths) = file_paths
    \<and> length (batch_errors (validate_batch e file_paths)) = 1)
   \<and> (length file_paths \<le> 100 \<longrightarrow>
      valid (validate_batch e file_paths) = filter (\<lambda>fp. fst (validate_file e fp)) file_paths
    \<and> invalid (validate_batch e file_paths) = filter (\<lambda>fp. \<not> fst (validate_file e fp)) file_paths
    \<and> mset (valid (validate_batch e file_paths)) + mset (invalid (validate_batch e file_paths))
        = mset file_paths
    \<and> set (valid (validate_batch e file_paths)) \<inter> set (invalid (validate_batch e file_paths)) = {})"
  by (auto simp: validate_batch_def max_files_per_batch_def validate_each_acc mset_partition_filter)

theorem validate_batch_limit_witness:
  "length (replicate 101 ''a.docx'') > 100
   \<and> valid (validate_batch sample_env (replicate 101 ''a.docx'')) = []
   \<and> invalid (validate_batch sample_env (replicate 101 ''a.docx'')) = replicate 101 ''a.docx''
   \<and> length (batch_errors (validate_batch sample_env (replicate 101 ''a.docx''))) = 1
   \<and> length [''a.docx'', ''notes.txt''] \<le> 100
   \<and> valid (validate_batch sample_env [''a.docx'', ''notes.txt'']) = [''a.docx'']
   \<and> invalid (validate_batch sample_env [''a.docx'', ''notes.txt'']) = [''notes.txt'']"
proof -
  have v: "fst (validate_file sample_env ''a.docx'')" "\<not> fst (validate_file sample_env ''notes.txt'')"
    by code_simp+
  show ?thesis
    using validate_batch_limit[of "replicate 101 ''a.docx''" sample_env]
      validate_batch_limit[of "[''a.docx'', ''notes.txt'']" sample_env] v
    by simp
qed

section \<open>The document converter\<close>

lemma generate_pdf_True: "generate_pdf e content out \<noteq> Inr False"
  by (simp add: generate_pdf_def split: option.splits)

lemma convert_document_cases:
  "convert_document e i out = Inr True
   \<or> (\<exists>ex. convert_document e i out = Inl ex \<and> cls ex = ConversionError)"
  by (auto simp: convert_document_def conversion_error_def split: sum.splits option.splits)

lemma convert_document_missing:
  "\<not> path_exists e i \<Longrightarrow> \<exists>ex. convert_document e i out = Inl ex \<and> cls ex = ConversionError"
  by (simp add: convert_document_def conversion_error_def)

lemma load_document_unsupported:
  "\<not> (endswith (lower i) ''.doc'' \<or> endswith (lower i) ''.docx'') \<Longrightarrow> \<exists>ex. load_document e i = Inl ex"
  by (simp add: load_document_def)

lemma convert_document_unsupported:
  assumes "\<not> (endswith (lower i) ''.doc'' \<or> endswith (lower i) ''.docx'')"
  shows "\<exists>ex. convert_document e i out = Inl ex \<and> cls ex = ConversionError"
proof -
  from load_document_unsupported[OF assms] obtain ex where "load_document e i = Inl ex" by blast
  then show ?thesis
    by (simp add: convert_document_def conversion_error_def split: option.splits)
qed

lemma convert_document_pdf_failure:
  assumes "\<forall>content. build_pdf e content out \<noteq> None"
  shows "\<exists>ex. convert_document e i out = Inl ex \<and> cls ex = ConversionError"
proof -
  have "\<And>content. generate_pdf e content out \<noteq> Inr True"
    using assms by (simp add: generate_pdf_def split: option.splits)
  then have "convert_document e i out \<noteq> Inr True"
    by (auto simp: convert_document_def split: sum.splits option.splits if_splits)
  with convert_document_cases[of e i out] show ?thesis by blast
qed

text \<open>
  C9. \<^verbatim>\<open>DocumentConverter.convert_document\<close> never returns \<^verbatim>\<open>False\<close>: it returns
  \<^verbatim>\<open>True\<close> or raises an exception of class \<^verbatim>\<open>ConversionError\<close>. In particular an input
  file that does not exist, a name that ends neither in \<^verbatim>\<open>.doc\<close> nor in \<^verbatim>\<open>.docx\<close>, and
  a failure of the PDF generation all end in a raised \<^verbatim>\<open>ConversionError\<close>.
\<close>

theorem convert_document_never_False:
  "convert_document e input_path output_path \<noteq> Inr False
   \<and> (convert_document e input_path output_path = Inr True
      \<or> (\<exists>ex. convert_document e input_path output_path = Inl ex \<and> cls ex = ConversionError))
   \<and> (\<not> path_exists e input_path \<longrightarrow>
        (\<exists>ex. convert_document e input_path output_path = Inl ex \<and> cls ex = ConversionError))
   \<and> (\<not> (endswith (lower input_path) ''.doc'' \<or> endswith (lower input_path) ''.docx'') \<longrightarrow>
        (\<exists>ex. convert_document e input_path output_path = Inl ex \<and> cls ex = ConversionError))
   \<and> ((\<forall>content. build_pdf e content output_path \<noteq> None) \<longrightarrow>
        (\<exists>ex. convert_document e input_path output_path = Inl ex \<and> cls ex = ConversionError))"
proof (intro conjI impI)
  show "convert_document e input_path output_path \<noteq> Inr False"
    using convert_document_cases[of e input_path output_path] by auto
  show "convert_document e input_path output_path = Inr True
      \<or> (\<exists>ex. convert_document e input_path output_path = Inl ex \<and> cls ex = ConversionError)"
    by (rule convert_document_cases)
  show "\<exists>ex. convert_document e input_path output_path = Inl ex \<and> cls ex = ConversionError"
    if "\<not> path_exists e input_path"
    using that by (rule convert_document_missing)
  show "\<exists>ex. convert_document e input_path output_path = Inl ex \<and> cls ex = ConversionError"
    if "\<not> (endswith (lower input_path) ''.doc'' \<or> endswith (lower input_path) ''.docx'')"
    using that by (rule convert_document_unsupported)
  show "\<exists>ex. convert_document e input_path output_path = Inl ex \<and> cls ex = ConversionError"
    if "\<forall>content. build_pdf e content output_path \<noteq> None"
    using that by (rule convert_document_pdf_failure)
qed

theorem convert_document_never_False_witness:
  "\<not> path_exists (sample_env\<lparr>path_exists := \<lambda>_. False\<rparr>) ''a.docx''
   \<and> isl (convert_document (sample_env\<lparr>path_exists := \<lambda>_. False\<rparr>) ''a.docx'' ''out/a.pdf'')
   \<and> \<not> (endswith (lower ''notes.txt'') ''.doc'' \<or> endswith (lower ''notes.txt'') ''.docx'')
   \<and> isl (convert_document sample_env ''notes.txt'' ''out/notes.pdf'')
   \<and> build_pdf (sample_env\<lparr>build_pdf := \<lambda>_ _. Some (other_exception ''disk full'')\<rparr>) ()
        ''out/a.pdf'' \<noteq> None
   \<and> isl (convert_document (sample_env\<lparr>build_pdf := \<lambda>_ _. Some (other_exception ''disk full'')\<rparr>)
        ''a.docx'' ''out/a.pdf'')
   \<and> convert_document sample_env ''a.docx'' ''out/a.pdf'' = Inr True"
proof -
  have 1: "\<not> path_exists (sample_env\<lparr>path_exists := \<lambda>_. False\<rparr>) ''a.docx''"
    by (simp add: sample_env_def)
  have 2: "\<not> (endswith (lower ''notes.txt'') ''.doc'' \<or> endswith (lower ''notes.txt'') ''.docx'')"
    by code_simp
  have 3: "\<forall>content. build_pdf (sample_env\<lparr>build_pdf := \<lambda>_ _. Some (other_exception ''disk full'')\<rparr>)
        content ''out/a.pdf'' \<noteq> None"
    by (simp add: sample_env_def)
  have 4: "convert_document sample_env ''a.docx'' ''out/a.pdf'' = Inr True"
    by code_simp
  have 5: "isl (convert_document (sample_env\<lparr>path_exists := \<lambda>_. False\<rparr>) ''a.docx'' ''out/a.pdf'')"
    using 1 convert_document_never_False[of "sample_env\<lparr>path_exists := \<lambda>_. False\<rparr>" "''a.docx''" "''out/a.pdf''"]
    by (metis sum.disc(1))
  have 6: "isl (convert_document sample_env ''notes.txt'' ''out/notes.pdf'')"
    using 2 convert_document_never_False[of sample_env "''notes.txt''" "''out/notes.pdf''"]
    by (metis sum.disc(1))
  have 7: "isl (convert_document (sample_env\<lparr>build_pdf := \<lambda>_ _. Some (other_exception ''disk full'')\<rparr>)
        ''a.docx'' ''out/a.pdf'')"
    using 3 convert_document_never_False[of "sample_env\<lparr>build_pdf := \<lambda>_ _. Some (other_exception ''disk full'')\<rparr>" "''a.docx''" "''out/a.pdf''"]
    by (metis sum.disc(1))
  from 1 2 3 4 5 6 7 show ?thesis by blast
qed

section \<open>The size of the pool\<close>

lemma pool_cases:
  "pool (process_files e sched t0 t1 p xs d) = None
   \<or> pool (process_files e sched t0 t1 p xs d) = Some (max_workers p)"
  using process_files_ok(5)[of e xs p d sched t0 t1] process_files_error(5)[of e xs p d sched t0 t1]
  by blast

lemma sample_valid_a: "validate_input_files sample_env [''a.docx''] = [''a.docx'']"
  by code_simp

lemma sample_pool_starts: "0 < max_workers p \<Longrightarrow> pool_starts sample_env p d"
  by (simp add: pool_starts_def sample_env_def)

text \<open>
  C5, as the code has it. The constructor keeps its argument when that is given and not
  zero, and takes \<^verbatim>\<open>config.max_workers\<close> when the argument is \<^verbatim>\<open>None\<close> or \<^verbatim>\<open>0\<close>. The pool
  of \<^verbatim>\<open>process_files\<close>, whenever one is created, has exactly \<^verbatim>\<open>self.max_workers\<close> workers,
  and one is created whenever some file is valid and the output directory and the pool can
  be made. \<^verbatim>\<open>get_optimal_worker_count\<close> returns \<open>min(2, cpu_count)\<close> up to 5 files,
  \<open>min(4, cpu_count)\<close> from 6 to 20 files and \<open>min(max_workers, cpu_count)\<close> above, and so
  never more than the CPU count.
\<close>

theorem worker_pool_fixed_size:
  "max_workers (init c None) = config_max_workers c
   \<and> max_workers (init c (Some 0)) = config_max_workers c
   \<and> (m \<noteq> 0 \<longrightarrow> max_workers (init c (Some m)) = m)
   \<and> (pool (process_files e sched t0 t1 p input_files output_dir) = None
      \<or> pool (process_files e sched t0 t1 p input_files output_dir) = Some (max_workers p))
   \<and> (validate_input_files e input_files \<noteq> [] \<and> pool_starts e p output_dir \<longrightarrow>
        pool (process_files e sched t0 t1 p input_files output_dir) = Some (max_workers p))
   \<and> (file_count \<le> 5 \<longrightarrow> get_optimal_worker_count e p file_count = min 2 (cpu_count e))
   \<and> (5 < file_count \<and> file_count \<le> 20 \<longrightarrow>
        get_optimal_worker_count e p file_count = min 4 (cpu_count e))
   \<and> (20 < file_count \<longrightarrow>
        get_optimal_worker_count e p file_count = min (max_workers p) (cpu_count e))
   \<and> get_optimal_worker_count e p file_count \<le> cpu_count e"
proof (intro conjI impI)
  show "pool (process_files e sched t0 t1 p input_files output_dir) = None
      \<or> pool (process_files e sched t0 t1 p input_files output_dir) = Some (max_workers p)"
    by (rule pool_cases)
  show "pool (process_files e sched t0 t1 p input_files output_dir) = Some (max_workers p)"
    if "validate_input_files e input_files \<noteq> [] \<and> pool_starts e p output_dir"
    using that process_files_ok(5) by blast
qed (simp_all add: init_def get_optimal_worker_count_def)

theorem worker_pool_fixed_size_witness:
  "(2::int) \<noteq> 0 \<and> max_workers (init default_config (Some 2)) = 2
   \<and> validate_input_files sample_env [''a.docx''] \<noteq> []
   \<and> pool_starts sample_env (init default_config (Some 2)) ''out''
   \<and> pool (process_files sample_env [] 0 1 (init default_config (Some 2)) [''a.docx''] ''out'') = Some 2
   \<and> (3::int) \<le> 5 \<and> get_optimal_worker_count sample_env (init default_config (Some 2)) 3 = 2
   \<and> (5::int) < 10 \<and> (10::int) \<le> 20
   \<and> get_optimal_worker_count sample_env (init default_config (Some 2)) 10 = 4
   \<and> (20::int) < 50 \<and> get_optimal_worker_count sample_env (init default_config (Some 2)) 50 = 2"
proof -
  have mw: "max_workers (init default_config (Some 2)) = 2" by (simp add: init_def)
  have ps: "pool_starts sample_env (init default_config (Some 2)) ''out''"
    by (rule sample_pool_starts) (simp add: mw)
  have cpu: "cpu_count sample_env = 8" by (simp add: sample_env_def)
  show ?thesis
    using mw ps cpu sample_valid_a
      worker_pool_fixed_size[of default_config 2 sample_env "[]" 0 1 "init default_config (Some 2)"
        "[''a.docx'']" "''out''" 3]
      worker_pool_fixed_size[of default_config 2 sample_env "[]" 0 1 "init default_config (Some 2)"
        "[''a.docx'']" "''out''" 10]
      worker_pool_fixed_size[of default_config 2 sample_env "[]" 0 1 "init default_config (Some 2)"
        "[''a.docx'']" "''out''" 50]
    by simp
qed

text \<open>
  As stated, C5 takes the constructor argument whenever it is given. The argument \<^verbatim>\<open>0\<close> is
  given and not taken: with the default configuration the processor gets 4 workers.
\<close>

theorem max_workers_zero_counterexample:
  "max_workers (init default_config (Some 0)) \<noteq> 0"
  by (simp add: init_def default_config_def)

section \<open>The statistics of a call\<close>

text \<open>
  C2 at a failing input. A new processor converts the one valid file \<^verbatim>\<open>a.docx\<close>. The
  statistics are computed inside \<^verbatim>\<open>_process_parallel\<close>, before \<^verbatim>\<open>process_files\<close> stores
  the number of validated files: the returned \<^verbatim>\<open>processed_files\<close> is still 0 and the
  success rate 0, with one entry in \<^verbatim>\<open>successful\<close>. A second call on the same processor
  adds to the counters of the first and divides by the first call's \<^verbatim>\<open>processed_files\<close>:
  two successes for one entry in \<^verbatim>\<open>successful\<close>, and a success rate of 200.
\<close>

theorem stats_computed_before_processed_files:
  "validate_input_files sample_env [''a.docx''] = [''a.docx'']
   \<and> length (successful (result (process_files sample_env [] 0 1 (init default_config None)
         [''a.docx''] ''out''))) = 1
   \<and> length (failed (result (process_files sample_env [] 0 1 (init default_config None)
         [''a.docx''] ''out''))) = 0
   \<and> stats (result (process_files sample_env [] 0 1 (init default_config None)
         [''a.docx''] ''out'')) =
       \<lparr>res_total_files = 1, res_processed_files = 0, res_successful_conversions = 1,
        res_failed_conversions = 0, success_rate = 0, total_time = 0,
        average_time_per_file = 0, files_per_minute = 0\<rparr>
   \<and> length (successful (result (process_files sample_env [] 2 3
         (self_after (process_files sample_env [] 0 1 (init default_config None)
            [''a.docx''] ''out''))
         [''a.docx''] ''out''))) = 1
   \<and> stats (result (process_files sample_env [] 2 3
         (self_after (process_files sample_env [] 0 1 (init default_config None)
            [''a.docx''] ''out''))
         [''a.docx''] ''out'')) =
       \<lparr>res_total_files = 1, res_processed_files = 1, res_successful_conversions = 2,
        res_failed_conversions = 0, success_rate = 200, total_time = - 1,
        average_time_per_file = - 1, files_per_minute = 0\<rparr>"
proof -
  have ok: "task_succeeds sample_env (task_of ''out'' ''a.docx'')"
    by code_simp
  have mw: "max_workers (init default_config None) = 4"
    by (simp add: init_def default_config_def)
  have ps: "pool_starts sample_env (init default_config None) ''out''"
    by (rule sample_pool_starts) (simp add: mw)
  have v: "validate_input_files sample_env [''a.docx''] \<noteq> []"
    by (simp add: sample_valid_a)
  have st: "self_stats (init default_config None) = initial_stats"
    by (simp add: init_def)
  let ?r1 = "process_files sample_env [] 0 1 (init default_config None) [''a.docx''] ''out''"
  have s1: "length (successful (result ?r1)) = 1" "length (failed (result ?r1)) = 0"
    using ok by (simp_all add: process_files_ok[OF v ps] sample_valid_a)
  have t1: "stats (result ?r1) =
       \<lparr>res_total_files = 1, res_processed_files = 0, res_successful_conversions = 1,
        res_failed_conversions = 0, success_rate = 0, total_time = 0,
        average_time_per_file = 0, files_per_minute = 0\<rparr>"
    using ok
    by (simp add: process_files_ok[OF v ps] sample_valid_a st initial_stats_def
        calculate_final_stats_def)
  have after: "self_after ?r1 = \<lparr>max_workers = 4, self_stats =
       \<lparr>total_files = 1, processed_files = 1, successful_conversions = 1,
        failed_conversions = 0, start_time = Some 0, end_time = Some 1\<rparr>\<rparr>"
    by code_simp
  have ps2: "pool_starts sample_env (self_after ?r1) ''out''"
    by (rule sample_pool_starts) (simp add: after)
  let ?r2 = "process_files sample_env [] 2 3 (self_after ?r1) [''a.docx''] ''out''"
  have s2: "length (successful (result ?r2)) = 1"
    using ok by (simp add: process_files_ok[OF v ps2] sample_valid_a)
  have t2: "stats (result ?r2) =
       \<lparr>res_total_files = 1, res_processed_files = 1, res_successful_conversions = 2,
        res_failed_conversions = 0, success_rate = 200, total_time = - 1,
        average_time_per_file = - 1, files_per_minute = 0\<rparr>"
    using ok
    by (simp add: process_files_ok[OF v ps2] sample_valid_a calculate_final_stats_def)
       (simp add: after Let_def)
  from sample_valid_a s1 t1 s2 t2 show ?thesis by blast
qed

section \<open>Which files are recorded\<close>

lemma fst_task_of [simp]: "fst (task_of d f) = f"
  by (simp add: task_of_def)

lemma map_fst_task_of [simp]: "map fst (map (task_of d) v) = v"
  by (simp add: comp_def)

lemma task_of_fst: "t \<in> set (map (task_of d) v) \<Longrightarrow> task_of d (fst t) = t"
  by auto

lemma recorded_inputs:
  assumes "validate_input_files e xs \<noteq> []" and "pool_starts e p d"
  shows "map s_input (successful (result (process_files e sched t0 t1 p xs d))) =
           map fst (filter (task_succeeds e)
             (as_completed sched (map (task_of d) (validate_input_files e xs))))"
    and "map f_input (failed (result (process_files e sched t0 t1 p xs d))) =
           map fst (filter (\<lambda>t. \<not> task_succeeds e t)
             (as_completed sched (map (task_of d) (validate_input_files e xs))))"
  by (simp_all add: process_files_ok[OF assms] comp_def)

lemma recorded_mset:
  assumes "pool_starts e p d"
  shows "mset (map s_input (successful (result (process_files e sched t0 t1 p xs d))))
       + mset (map f_input (failed (result (process_files e sched t0 t1 p xs d))))
       = mset (validate_input_files e xs)"
proof (cases "validate_input_files e xs = []")
  case True
  then show ?thesis by (simp add: process_files_error)
next
  case False
  let ?done = "as_completed sched (map (task_of d) (validate_input_files e xs))"
  have "mset (map fst (filter (task_succeeds e) ?done))
        + mset (map fst (filter (\<lambda>t. \<not> task_succeeds e t) ?done))
        = image_mset fst (mset (filter (task_succeeds e) ?done)
            + mset (filter (\<lambda>t. \<not> task_succeeds e t) ?done))"
    by (simp only: mset_map image_mset_union)
  also have "\<dots> = image_mset fst (mset (map (task_of d) (validate_input_files e xs)))"
    by (simp only: mset_partition_filter mset_as_completed)
  also have "\<dots> = mset (map fst (map (task_of d) (validate_input_files e xs)))"
    by (simp only: mset_map)
  also have "\<dots> = mset (validate_input_files e xs)"
    by (simp only: map_fst_task_of)
  finally show ?thesis by (simp add: recorded_inputs[OF False assms])
qed

lemma recorded_disjoint:
  "set (map s_input (successful (result (process_files e sched t0 t1 p xs d))))
   \<inter> set (map f_input (failed (result (process_files e sched t0 t1 p xs d)))) = {}"
proof (cases "validate_input_files e xs \<noteq> [] \<and> pool_starts e p d")
  case False
  then show ?thesis by (simp add: process_files_error)
next
  case True
  then have v: "validate_input_files e xs \<noteq> []" and ps: "pool_starts e p d" by simp_all
  let ?done = "as_completed sched (map (task_of d) (validate_input_files e xs))"
  have "False" if "t \<in> set ?done" "task_succeeds e t" "u \<in> set ?done" "\<not> task_succeeds e u"
      "fst t = fst u" for t u
  proof -
    from that(1) have "task_of d (fst t) = t"
      unfolding set_as_completed by (rule task_of_fst)
    moreover from that(3) have "task_of d (fst u) = u"
      unfolding set_as_completed by (rule task_of_fst)
    ultimately have "task_of d (fst t) = t" "task_of d (fst u) = u" .
    with that(5) have "t = u" by metis
    with that(2,4) show False by blast
  qed
  note clash = this
  have "set (map fst (filter (task_succeeds e) ?done))
      \<inter> set (map fst (filter (\<lambda>t. \<not> task_succeeds e t) ?done)) = {}"
  proof (rule equals0I)
    fix x
    assume "x \<in> set (map fst (filter (task_succeeds e) ?done))
      \<inter> set (map fst (filter (\<lambda>t. \<not> task_succeeds e t) ?done))"
    then obtain t u where "t \<in> set ?done" "task_succeeds e t" "u \<in> set ?done"
        "\<not> task_succeeds e u" "fst t = fst u"
      by auto
    then show False by (rule clash)
  qed
  then show ?thesis
    by (simp only: recorded_inputs[OF v ps])
qed

lemma recorded_subset:
  "set (map s_input (successful (result (process_files e sched t0 t1 p xs d))))
   \<union> set (map f_input (failed (result (process_files e sched t0 t1 p xs d))))
   \<subseteq> set (validate_input_files e xs)"
proof (cases "validate_input_files e xs \<noteq> [] \<and> pool_starts e p d")
  case False
  then show ?thesis by (simp add: process_files_error)
next
  case True
  then have v: "validate_input_files e xs \<noteq> []" and ps: "pool_starts e p d" by simp_all
  let ?done = "as_completed sched (map (task_of d) (validate_input_files e xs))"
  have "set (map fst (map (task_of d) (validate_input_files e xs)))
      = set (validate_input_files e xs)"
    by (simp only: map_fst_task_of)
  then have "fst ` set ?done = set (validate_input_files e xs)"
    by (simp only: set_as_completed list.set_map)
  then have "set (map fst (filter (task_succeeds e) ?done))
      \<union> set (map fst (filter (\<lambda>t. \<not> task_succeeds e t) ?done))
      \<subseteq> set (validate_input_files e xs)"
    by auto
  then show ?thesis
    by (simp only: recorded_inputs[OF v ps])
qed

section \<open>Validated files and the two lists\<close>

lemma invalid_not_validated:
  "\<not> fst (validate_file e f) \<Longrightarrow> f \<notin> set (validate_input_files e xs)"
  by (simp add: validate_input_files_def)

text \<open>
  C1, as the code has it. In every call each entry of \<^verbatim>\<open>successful\<close> and of \<^verbatim>\<open>failed\<close>
  belongs to a validated input file, no file is in both lists, and a file that fails
  validation is in neither. When the output directory and the pool can be created, the
  validated files are exactly the inputs of the two lists together, each as often as it
  was given. When they cannot, the call still returns, with the error result: both lists
  are empty, whatever was validated.
\<close>

theorem validated_files_recorded:
  "set (map s_input (successful (result (process_files e sched t0 t1 p input_files output_dir))))
     \<union> set (map f_input (failed (result (process_files e sched t0 t1 p input_files output_dir))))
     \<subseteq> set (validate_input_files e input_files)
   \<and> set (map s_input (successful (result (process_files e sched t0 t1 p input_files output_dir))))
     \<inter> set (map f_input (failed (result (process_files e sched t0 t1 p input_files output_dir))))
     = {}
   \<and> (\<not> fst (validate_file e f) \<longrightarrow>
        f \<notin> set (map s_input (successful (result (process_files e sched t0 t1 p input_files output_dir))))
      \<and> f \<notin> set (map f_input (failed (result (process_files e sched t0 t1 p input_files output_dir)))))
   \<and> (pool_starts e p output_dir \<longrightarrow>
        mset (map s_input (successful (result (process_files e sched t0 t1 p input_files output_dir))))
        + mset (map f_input (failed (result (process_files e sched t0 t1 p input_files output_dir))))
        = mset (validate_input_files e input_files))
   \<and> (\<not> pool_starts e p output_dir \<longrightarrow>
        successful (result (process_files e sched t0 t1 p input_files output_dir)) = []
      \<and> failed (result (process_files e sched t0 t1 p input_files output_dir)) = [])"
proof (intro conjI impI)
  let ?r = "result (process_files e sched t0 t1 p input_files output_dir)"
  show sub: "set (map s_input (successful ?r)) \<union> set (map f_input (failed ?r))
      \<subseteq> set (validate_input_files e input_files)"
    by (rule recorded_subset)
  show "set (map s_input (successful ?r)) \<inter> set (map f_input (failed ?r)) = {}"
    by (rule recorded_disjoint)
  show "f \<notin> set (map s_input (successful ?r))" if "\<not> fst (validate_file e f)"
    using sub invalid_not_validated[OF that, of input_files] by blast
  show "f \<notin> set (map f_input (failed ?r))" if "\<not> fst (validate_file e f)"
    using sub invalid_not_validated[OF that, of input_files] by blast
  show "mset (map s_input (successful ?r)) + mset (map f_input (failed ?r))
      = mset (validate_input_files e input_files)" if "pool_starts e p output_dir"
    using that by (rule recorded_mset)
  show "successful ?r = []" if "\<not> pool_starts e p output_dir"
    using that by (simp add: process_files_error)
  show "failed ?r = []" if "\<not> pool_starts e p output_dir"
    using that by (simp add: process_files_error)
qed

lemma sample_three: "validate_input_files sample_env [''a.docx'', ''notes.txt'', ''b.docx'']
    = [''a.docx'', ''b.docx'']"
  by code_simp

lemma sample_notes_invalid: "\<not> fst (validate_file sample_env ''notes.txt'')"
  by code_simp

lemma no_mkdir_not_starts:
  "\<not> pool_starts (sample_env\<lparr>mkdir := \<lambda>_. Some (other_exception ''Permission denied'')\<rparr>) p d"
  by (simp add: pool_starts_def)

theorem validated_files_recorded_witness:
  "\<not> fst (validate_file sample_env ''notes.txt'')
   \<and> pool_starts sample_env (init default_config None) ''out''
   \<and> ''notes.txt'' \<notin> set (map s_input (successful (result
        (process_files sample_env [1] 0 1 (init default_config None)
           [''a.docx'', ''notes.txt'', ''b.docx''] ''out''))))
   \<and> mset (map s_input (successful (result
        (process_files sample_env [1] 0 1 (init default_config None)
           [''a.docx'', ''notes.txt'', ''b.docx''] ''out''))))
      + mset (map f_input (failed (result
        (process_files sample_env [1] 0 1 (init default_config None)
           [''a.docx'', ''notes.txt'', ''b.docx''] ''out''))))
      = {#''a.docx'', ''b.docx''#}
   \<and> \<not> pool_starts (sample_env\<lparr>mkdir := \<lambda>_. Some (other_exception ''Permission denied'')\<rparr>)
        (init default_config None) ''out''
   \<and> successful (result (process_files
        (sample_env\<lparr>mkdir := \<lambda>_. Some (other_exception ''Permission denied'')\<rparr>) [] 0 1
        (init default_config None) [''a.docx''] ''out'')) = []"
proof -
  have ps: "pool_starts sample_env (init default_config None) ''out''"
    by (rule sample_pool_starts) (simp add: init_def default_config_def)
  show ?thesis
    using sample_notes_invalid ps sample_three no_mkdir_not_starts[of "init default_config None" "''out''"]
      validated_files_recorded[of sample_env "[1]" 0 1 "init default_config None"
        "[''a.docx'', ''notes.txt'', ''b.docx'']" "''out''" "''notes.txt''"]
      validated_files_recorded[of "sample_env\<lparr>mkdir := \<lambda>_. Some (other_exception ''Permission denied'')\<rparr>"
        "[]" 0 1 "init default_config None" "[''a.docx'']" "''out''" "''notes.txt''"]
    by simp
qed

text \<open>
  As stated, C1 promises every validated file a place in one of the lists whenever the
  call returns. Here the output directory cannot be created: the call returns, \<^verbatim>\<open>a.docx\<close>
  is valid, and it is in neither list.
\<close>

theorem validated_file_unrecorded_counterexample:
  "''a.docx'' \<in> set (validate_input_files
        (sample_env\<lparr>mkdir := \<lambda>_. Some (other_exception ''Permission denied'')\<rparr>) [''a.docx''])
   \<and> ''a.docx'' \<notin> set (map s_input (successful (result (process_files
        (sample_env\<lparr>mkdir := \<lambda>_. Some (other_exception ''Permission denied'')\<rparr>) [] 0 1
        (init default_config None) [''a.docx''] ''out''))))
   \<and> ''a.docx'' \<notin> set (map f_input (failed (result (process_files
        (sample_env\<lparr>mkdir := \<lambda>_. Some (other_exception ''Permission denied'')\<rparr>) [] 0 1
        (init default_config None) [''a.docx''] ''out''))))"
proof -
  have "validate_input_files
        (sample_env\<lparr>mkdir := \<lambda>_. Some (other_exception ''Permission denied'')\<rparr>) [''a.docx'']
      = [''a.docx'']"
    by code_simp
  then show ?thesis
    by (simp add: process_files_error no_mkdir_not_starts)
qed

section \<open>Tasks and their records\<close>

lemma recorded_lengths:
  "length (successful (result (process_files e sched t0 t1 p xs d)))
   + length (failed (result (process_files e sched t0 t1 p xs d)))
   = length (submitted (process_files e sched t0 t1 p xs d))"
proof (cases "validate_input_files e xs \<noteq> [] \<and> pool_starts e p d")
  case False
  then show ?thesis by (simp add: process_files_error)
next
  case True
  then have v: "validate_input_files e xs \<noteq> []" and ps: "pool_starts e p d" by simp_all
  let ?done = "as_completed sched (map (task_of d) (validate_input_files e xs))"
  have "length (filter (task_succeeds e) ?done) + length (filter (\<lambda>t. \<not> task_succeeds e t) ?done)
      = length ?done"
    by (rule sum_length_filter_compl)
  also have "\<dots> = length (map (task_of d) (validate_input_files e xs))"
    using mset_as_completed[of sched "map (task_of d) (validate_input_files e xs)"]
    by (rule mset_eq_length)
  finally show ?thesis
    by (simp add: process_files_ok[OF v ps])
qed

lemma failing_task_recorded:
  assumes "t \<in> set (submitted (process_files e sched t0 t1 p xs d))"
    and "\<not> task_succeeds e t"
  shows "fst t \<in> set (map f_input (failed (result (process_files e sched t0 t1 p xs d))))"
proof (cases "validate_input_files e xs \<noteq> [] \<and> pool_starts e p d")
  case False
  with assms(1) show ?thesis by (simp add: process_files_error)
next
  case True
  then have v: "validate_input_files e xs \<noteq> []" and ps: "pool_starts e p d" by simp_all
  let ?done = "as_completed sched (map (task_of d) (validate_input_files e xs))"
  from assms(1) have "t \<in> set ?done"
    by (simp only: process_files_ok(4)[OF v ps] set_as_completed)
  with assms(2) have "t \<in> set (filter (\<lambda>t. \<not> task_succeeds e t) ?done)" by simp
  then have "fst t \<in> set (map fst (filter (\<lambda>t. \<not> task_succeeds e t) ?done))"
    by (metis imageI list.set_map)
  then show ?thesis by (simp only: recorded_inputs[OF v ps])
qed

lemma submitted_cases:
  "(pool_starts e p d \<longrightarrow>
      submitted (process_files e sched t0 t1 p xs d) = map (task_of d) (validate_input_files e xs))
   \<and> (\<not> pool_starts e p d \<longrightarrow> submitted (process_files e sched t0 t1 p xs d) = [])"
proof (cases "validate_input_files e xs = []")
  case True
  then show ?thesis by (simp add: process_files_error)
next
  case False
  then show ?thesis
    using process_files_ok(4)[OF False, of p d sched t0 t1] process_files_error(4)[of e xs p d sched t0 t1]
    by blast
qed

section \<open>No retries\<close>

text \<open>
  C4, as the code has it. \<^verbatim>\<open>process_files\<close> performs no retries. When the output directory
  and the pool can be created, the submitted tasks are exactly one
  \<^verbatim>\<open>_convert_single_file\<close> task for each validated entry of the input list, in order; when
  they cannot, no task is submitted. So no file is submitted more often than it was given.
  Every submitted task leaves exactly one entry, in \<^verbatim>\<open>successful\<close> or in \<^verbatim>\<open>failed\<close>, and a
  task that fails or raises leaves its file in \<^verbatim>\<open>failed\<close> and not in \<^verbatim>\<open>successful\<close>.
\<close>

theorem no_retries:
  "(pool_starts e p output_dir \<longrightarrow>
      submitted (process_files e sched t0 t1 p input_files output_dir)
        = map (task_of output_dir) (validate_input_files e input_files)
    \<and> map fst (submitted (process_files e sched t0 t1 p input_files output_dir))
        = validate_input_files e input_files)
   \<and> (\<not> pool_starts e p output_dir \<longrightarrow>
      submitted (process_files e sched t0 t1 p input_files output_dir) = [])
   \<and> count_list (map fst (submitted (process_files e sched t0 t1 p input_files output_dir))) f
      \<le> count_list (validate_input_files e input_files) f
   \<and> length (successful (result (process_files e sched t0 t1 p input_files output_dir)))
      + length (failed (result (process_files e sched t0 t1 p input_files output_dir)))
      = length (submitted (process_files e sched t0 t1 p input_files output_dir))
   \<and> (t \<in> set (submitted (process_files e sched t0 t1 p input_files output_dir))
        \<and> \<not> task_succeeds e t \<longrightarrow>
      fst t \<in> set (map f_input (failed (result (process_files e sched t0 t1 p input_files output_dir))))
    \<and> fst t \<notin> set (map s_input (successful (result (process_files e sched t0 t1 p input_files output_dir)))))"
proof (intro conjI impI)
  let ?run = "process_files e sched t0 t1 p input_files output_dir"
  note sc = submitted_cases[of e p output_dir sched t0 t1 input_files]
  show a: "submitted ?run = map (task_of output_dir) (validate_input_files e input_files)"
    if "pool_starts e p output_dir"
    using that sc by blast
  show "map fst (submitted ?run) = validate_input_files e input_files"
    if "pool_starts e p output_dir"
    by (simp only: a[OF that] map_fst_task_of)
  show b: "submitted ?run = []" if "\<not> pool_starts e p output_dir"
    using that sc by blast
  show "count_list (map fst (submitted ?run)) f \<le> count_list (validate_input_files e input_files) f"
  proof (cases "pool_starts e p output_dir")
    case True
    then show ?thesis by (simp only: a[OF True] map_fst_task_of)
  next
    case False
    then show ?thesis by (simp add: b[OF False])
  qed
  show "length (successful (result ?run)) + length (failed (result ?run)) = length (submitted ?run)"
    by (rule recorded_lengths)
  show c: "fst t \<in> set (map f_input (failed (result ?run)))"
    if "t \<in> set (submitted ?run) \<and> \<not> task_succeeds e t"
    using that failing_task_recorded by blast
  show "fst t \<notin> set (map s_input (successful (result ?run)))"
    if "t \<in> set (submitted ?run) \<and> \<not> task_succeeds e t"
    using c[OF that] recorded_disjoint[of e sched t0 t1 p input_files output_dir] by blast
qed

theorem no_retries_witness:
  "pool_starts disk_full_env (init default_config None) ''out''
   \<and> map fst (submitted (process_files disk_full_env [1] 0 1 (init default_config None)
        [''a.docx'', ''b.docx''] ''out'')) = [''a.docx'', ''b.docx'']
   \<and> (''b.docx'', ''out/b.pdf'') \<in> set (submitted (process_files disk_full_env [1] 0 1
        (init default_config None) [''a.docx'', ''b.docx''] ''out''))
   \<and> \<not> task_succeeds disk_full_env (''b.docx'', ''out/b.pdf'')
   \<and> ''b.docx'' \<in> set (map f_input (failed (result (process_files disk_full_env [1] 0 1
        (init default_config None) [''a.docx'', ''b.docx''] ''out''))))
   \<and> ''b.docx'' \<notin> set (map s_input (successful (result (process_files disk_full_env [1] 0 1
        (init default_config None) [''a.docx'', ''b.docx''] ''out''))))
   \<and> \<not> pool_starts sample_env (init default_config (Some (- 1))) ''out''
   \<and> submitted (process_files sample_env [] 0 1 (init default_config (Some (- 1)))
        [''a.docx''] ''out'') = []"
proof -
  have ps: "pool_starts disk_full_env (init default_config None) ''out''"
    by (simp add: pool_starts_def disk_full_env_def sample_env_def init_def default_config_def)
  have nps: "\<not> pool_starts sample_env (init default_config (Some (- 1))) ''out''"
    by (simp add: pool_starts_def init_def)
  have v: "validate_input_files disk_full_env [''a.docx'', ''b.docx''] = [''a.docx'', ''b.docx'']"
    by code_simp
  have t: "task_of ''out'' ''b.docx'' = (''b.docx'', ''out/b.pdf'')"
    by code_simp
  have f: "\<not> task_succeeds disk_full_env (''b.docx'', ''out/b.pdf'')"
    by code_simp
  have "(''b.docx'', ''out/b.pdf'') \<in> set (submitted (process_files disk_full_env [1] 0 1
        (init default_config None) [''a.docx'', ''b.docx''] ''out''))"
    using no_retries[of disk_full_env "init default_config None" "''out''" "[1]" 0 1
        "[''a.docx'', ''b.docx'']"] ps v t
    by simp
  then show ?thesis
    using ps nps v f
      no_retries[of disk_full_env "init default_config None" "''out''" "[1]" 0 1
        "[''a.docx'', ''b.docx'']" "''b.docx''" "(''b.docx'', ''out/b.pdf'')"]
      no_retries[of sample_env "init default_config (Some (- 1))" "''out''" "[]" 0 1
        "[''a.docx'']"]
    by simp
qed

text \<open>
  As stated, C4 has every validated file submitted exactly once. A processor with
  \<^verbatim>\<open>max_workers = -1\<close> validates \<^verbatim>\<open>a.docx\<close>, fails to create its pool and returns the error
  result: the file is validated and never submitted.
\<close>

theorem validated_file_not_submitted_counterexample:
  "''a.docx'' \<in> set (validate_input_files sample_env [''a.docx''])
   \<and> count_list (map fst (submitted (process_files sample_env [] 0 1
        (init default_config (Some (- 1))) [''a.docx''] ''out''))) ''a.docx'' \<noteq> 1"
proof -
  have "\<not> pool_starts sample_env (init default_config (Some (- 1))) ''out''"
    by (simp add: pool_starts_def init_def)
  then show ?thesis
    by (simp add: process_files_error sample_valid_a)
qed

section \<open>Results as sets\<close>





section \<open>Order and batch independence\<close>





end
